theory Spec2Isabelle
  imports Complex_Main
begin

section \<open>NetRep: the subset eigenvector summary \<open>SvdProps\<close>\<close>

text \<open>
  The development embeds the one exported function of
  \<^verbatim>\<open>src/package/src/subsetSummary.cpp\<close>:
  \<^verbatim>\<open>
  List SvdProps(SEXP pDat, IntegerVector subsetIndices) {
    XPtr<BigMatrix> xpDat(pDat);
    // Make sure we're not indexing out of range.
    if (is_true(any(subsetIndices <= 0)) ||
        is_true(any(subsetIndices > xpDat->ncol()))) {
      throw std::out_of_range(
        "Some of the requested indices for network subset are outside of the "
        "given data matrix."
      );
    }
  }
  \<close>
  The body ends after the range check: there is no statement that reads the matrix,
  decomposes anything or returns a value.
\<close>

subsection \<open>Data\<close>

text \<open>
  An element of an R integer vector is an integer or the missing value
  \<open>NA_integer_\<close>; an element of an R logical vector is \<open>TRUE\<close>, \<open>FALSE\<close> or
  \<open>NA\<close>.
\<close>

datatype r_int = NA_INTEGER | IntVal int

datatype r_lgl = NA_LOGICAL | TRUE | FALSE

type_synonym IntegerVector = "r_int list"

text \<open>
  The big matrix behind the handle \<open>pDat\<close>: its dimensions and its data, stored column
  by column (\<open>columns m ! j\<close> is column \<open>j + 1\<close>). The handle is taken to point to a
  matrix: turning the caller's argument into \<open>XPtr<BigMatrix>\<close> is the host's
  marshalling. \<open>SvdProps\<close> itself calls \<open>ncol()\<close> and nothing else.
\<close>

record BigMatrix =
  nrow :: int
  ncol :: int
  columns :: "real list list"

text \<open>
  The documented return value is an R list of numeric vectors: the eigenvector, then
  the proportion of variance.
\<close>

type_synonym R_List = "real list list"

text \<open>The only exception the function constructs, with its \<open>what()\<close> string.\<close>

datatype cpp_exception = out_of_range string

text \<open>
  How a call ends: with a returned value, with a thrown exception, or by control
  reaching the closing brace of the function without any \<open>return\<close> statement
  (\<open>No_return\<close>). In the last case no statement of the function has built a list, an
  eigenvector or a proportion of variance; C++ leaves what the caller then sees
  undefined. \<open>No_return\<close> marks that path of the source: it promises nothing about what
  a compiled call does there, which may be anything, the range error included.
\<close>

datatype 'a outcome =
    is_Returns: Returns 'a
  | is_Throws: Throws cpp_exception
  | No_return

subsection \<open>The vectorised comparisons\<close>

text \<open>
  \<open>subsetIndices <= rhs\<close> and \<open>subsetIndices > rhs\<close> compare element by element; a
  missing element gives a missing logical.
\<close>

definition sugar_less_or_equal :: "IntegerVector \<Rightarrow> int \<Rightarrow> r_lgl list" where
  "sugar_less_or_equal lhs rhs =
     map (\<lambda>x. case x of NA_INTEGER \<Rightarrow> NA_LOGICAL
                | IntVal v \<Rightarrow> if v \<le> rhs then TRUE else FALSE) lhs"

definition sugar_greater :: "IntegerVector \<Rightarrow> int \<Rightarrow> r_lgl list" where
  "sugar_greater lhs rhs =
     map (\<lambda>x. case x of NA_INTEGER \<Rightarrow> NA_LOGICAL
                | IntVal v \<Rightarrow> if v > rhs then TRUE else FALSE) lhs"

text \<open>
  \<open>any\<close> scans from the left: it stops with \<open>TRUE\<close> at the first \<open>TRUE\<close>, remembers
  a missing element, and otherwise ends with what it has (\<open>FALSE\<close> when nothing was
  seen). \<open>is_true\<close> holds of \<open>TRUE\<close> only.
\<close>

fun any_from :: "r_lgl \<Rightarrow> r_lgl list \<Rightarrow> r_lgl" where
  "any_from result [] = result"
| "any_from result (current # rest) =
     (if current = TRUE then TRUE
      else if current = NA_LOGICAL then any_from NA_LOGICAL rest
      else any_from result rest)"

definition any :: "r_lgl list \<Rightarrow> r_lgl" where
  "any object = any_from FALSE object"

definition is_true :: "r_lgl \<Rightarrow> bool" where
  "is_true x = (x = TRUE)"

subsection \<open>The function\<close>

definition oor_message :: string where
  "oor_message =
     ''Some of the requested indices for network subset are outside of the '' @
     ''given data matrix.''"

definition SvdProps :: "BigMatrix \<Rightarrow> IntegerVector \<Rightarrow> R_List outcome" where
  "SvdProps pDat subsetIndices =
     (if is_true (any (sugar_less_or_equal subsetIndices 0)) \<or>
         is_true (any (sugar_greater subsetIndices (ncol pDat)))
      then Throws (out_of_range oor_message)
      else No_return)"

subsection \<open>Inputs used below\<close>

text \<open>
  The 4 by 3 matrix with rows \<open>[1,2,5]\<close>, \<open>[2,4,5]\<close>, \<open>[3,6,5]\<close>, \<open>[4,8,5]\<close>.
\<close>

definition scenario :: BigMatrix where
  "scenario = \<lparr>nrow = 4, ncol = 3, columns = [[1, 2, 3, 4], [2, 4, 6, 8], [5, 5, 5, 5]]\<rparr>"

text \<open>A second matrix of the same shape with other data.\<close>

definition scenario_other :: BigMatrix where
  "scenario_other = \<lparr>nrow = 4, ncol = 3, columns = [[0, 1, 0, 1], [7, 7, 7, 7], [9, 8, 7, 6]]\<rparr>"

text \<open>A column is constant when all its entries are equal.\<close>

definition constant_column :: "real list \<Rightarrow> bool" where
  "constant_column c = list_all (\<lambda>x. x = hd c) c"

section \<open>The range check\<close>

text \<open>
  \<open>any\<close> starts from a result that is not \<open>TRUE\<close>; from there it ends with \<open>TRUE\<close>
  exactly when some element is \<open>TRUE\<close>.
\<close>

lemma any_from_TRUE:
  "result \<noteq> TRUE \<Longrightarrow> any_from result object = TRUE \<longleftrightarrow> TRUE \<in> set object"
proof (induction object arbitrary: result)
  case Nil
  then show ?case by simp
next
  case (Cons current rest)
  show ?case
  proof (cases current)
    case NA_LOGICAL
    then show ?thesis using Cons.IH [of NA_LOGICAL] by simp
  next
    case TRUE
    then show ?thesis by simp
  next
    case FALSE
    then show ?thesis using Cons.IH [of result] Cons.prems by simp
  qed
qed

lemma TRUE_in_less_or_equal:
  "TRUE \<in> set (sugar_less_or_equal lhs rhs) \<longleftrightarrow> (\<exists>v. IntVal v \<in> set lhs \<and> v \<le> rhs)"
  by (induction lhs) (auto simp: sugar_less_or_equal_def split: r_int.splits)

lemma TRUE_in_greater:
  "TRUE \<in> set (sugar_greater lhs rhs) \<longleftrightarrow> (\<exists>v. IntVal v \<in> set lhs \<and> rhs < v)"
  by (induction lhs) (auto simp: sugar_greater_def split: r_int.splits)

lemma any_less_or_equal:
  "is_true (any (sugar_less_or_equal lhs rhs)) \<longleftrightarrow> (\<exists>v. IntVal v \<in> set lhs \<and> v \<le> rhs)"
  by (simp add: is_true_def any_def any_from_TRUE TRUE_in_less_or_equal)

lemma any_greater:
  "is_true (any (sugar_greater lhs rhs)) \<longleftrightarrow> (\<exists>v. IntVal v \<in> set lhs \<and> rhs < v)"
  by (simp add: is_true_def any_def any_from_TRUE TRUE_in_greater)

text \<open>The two branches of \<open>SvdProps\<close>, in terms of the index values.\<close>

lemma SvdProps_cases:
  "SvdProps pDat subsetIndices =
     (if \<exists>v. IntVal v \<in> set subsetIndices \<and> (v \<le> 0 \<or> ncol pDat < v)
      then Throws (out_of_range oor_message) else No_return)"
  unfolding SvdProps_def any_less_or_equal any_greater by auto

text \<open>Of the matrix, only the column count enters the outcome.\<close>

lemma SvdProps_ncol_only:
  "ncol pDat' = ncol pDat \<Longrightarrow> SvdProps pDat' subsetIndices = SvdProps pDat subsetIndices"
  by (simp add: SvdProps_def)

text \<open>
  Claim C1. Whenever \<open>subsetIndices\<close> contains a value below 1 or above the column
  count, \<open>SvdProps\<close> throws \<open>std::out_of_range\<close>. Nothing of the matrix but its
  column count is consulted on the way: with any other row count \<open>r\<close> and any other
  data \<open>cs\<close> behind the handle the call ends in the same exception, so no column is
  read before the failure, and the function is a pure function of its arguments, so
  the check changes nothing.
\<close>

theorem SvdProps_out_of_range:
  assumes "IntVal v \<in> set subsetIndices" and "v < 1 \<or> ncol pDat < v"
  shows "SvdProps pDat subsetIndices = Throws (out_of_range oor_message) \<and>
         SvdProps (pDat\<lparr>nrow := r, columns := cs\<rparr>) subsetIndices =
           Throws (out_of_range oor_message)"
proof -
  from assms have bad: "\<exists>w. IntVal w \<in> set subsetIndices \<and> (w \<le> 0 \<or> ncol pDat < w)"
    by (intro exI [of _ v]) auto
  then have here: "SvdProps pDat subsetIndices = Throws (out_of_range oor_message)"
    by (simp add: SvdProps_cases)
  have "ncol (pDat\<lparr>nrow := r, columns := cs\<rparr>) = ncol pDat"
    by simp
  then have "SvdProps (pDat\<lparr>nrow := r, columns := cs\<rparr>) subsetIndices =
      SvdProps pDat subsetIndices"
    by (rule SvdProps_ncol_only)
  with here show ?thesis by simp
qed

text \<open>
  The index \<open>[4]\<close> against the 3-column matrix, and against the other matrix of the
  same shape.
\<close>

theorem SvdProps_out_of_range_witness:
  "IntVal 4 \<in> set [IntVal 4] \<and> ncol scenario < 4 \<and>
   SvdProps scenario [IntVal 4] = Throws (out_of_range oor_message) \<and>
   SvdProps scenario_other [IntVal 4] = Throws (out_of_range oor_message)"
proof -
  have mem: "IntVal 4 \<in> set [IntVal 4]" by simp
  have out: "4 < (1::int) \<or> ncol scenario < 4" by (simp add: scenario_def)
  have other: "scenario\<lparr>nrow := 4, columns := columns scenario_other\<rparr> = scenario_other"
    by (simp add: scenario_def scenario_other_def)
  from SvdProps_out_of_range [OF mem out, where r = 4 and cs = "columns scenario_other"]
    mem out other
  show ?thesis by (simp add: scenario_def)
qed


text \<open>
  A missing index is neither at most 0 nor above the column count: its comparisons
  are missing, which \<open>is_true\<close> does not accept.
\<close>

lemma SvdProps_NA_passes:
  "SvdProps pDat [NA_INTEGER] = No_return"
  by (simp add: SvdProps_cases)

section \<open>Past the range check\<close>

text \<open>
  The documentation of \<open>SvdProps\<close> promises a list whose first element is the first
  eigenvector of the singular value decomposition of the subset, with its sign matched
  to the average of the data, and whose second element is the proportion of variance
  that eigenvector explains. The function body has no statement after the range check,
  so on indices that are in range every call ends at the closing brace. The theorems of
  this section evaluate the function on such inputs.
\<close>

text \<open>
  Claim C2 (in-range, non-degenerate input yields the pair of eigenvector and variance
  explained, or else a reported error). On the whole 4 by 3 matrix, indices
  \<open>[1, 2, 3]\<close>, the call neither returns a value nor throws.
\<close>

theorem SvdProps_no_result_pair:
  "\<not> is_Returns (SvdProps scenario [IntVal 1, IntVal 2, IntVal 3]) \<and>
   \<not> is_Throws (SvdProps scenario [IntVal 1, IntVal 2, IntVal 3])"
  by (simp add: SvdProps_def scenario_def sugar_less_or_equal_def sugar_greater_def
      any_def is_true_def)

text \<open>
  Claim C3 (the 4 by 3 matrix with indices \<open>[1, 2]\<close> gives variance explained 1 and
  the unit vector along \<open>[1, 2, 3, 4]\<close>). The call ends at the closing brace.
\<close>

theorem SvdProps_scenario_1_2:
  "SvdProps scenario [IntVal 1, IntVal 2] = No_return"
  by (simp add: SvdProps_def scenario_def sugar_less_or_equal_def sugar_greater_def
      any_def is_true_def)

text \<open>
  Claim C4 (the returned eigenvector has Euclidean norm 1). On columns 1 and 3 of the
  second matrix no list with a first element is returned, so there is no eigenvector
  to have a norm.
\<close>

theorem SvdProps_no_unit_eigenvector:
  "\<not> (\<exists>eigenvector rest.
      SvdProps scenario_other [IntVal 1, IntVal 3] = Returns (eigenvector # rest))"
  by (simp add: SvdProps_def scenario_other_def sugar_less_or_equal_def sugar_greater_def
      any_def is_true_def)

text \<open>
  Claim C5 (the returned eigenvector has a non-negative dot product with the average of
  the selected columns). On columns 2 and 1 of the 4 by 3 matrix the call ends at the
  closing brace.
\<close>

theorem SvdProps_no_signed_eigenvector:
  "SvdProps scenario [IntVal 2, IntVal 1] = No_return"
  by (simp add: SvdProps_def scenario_def sugar_less_or_equal_def sugar_greater_def
      any_def is_true_def)

text \<open>
  Claim C6 (the returned variance explained lies in \<open>(0, 1]\<close>). On columns 3 and 1 of
  the second matrix no list of an eigenvector and a proportion is returned.
\<close>

theorem SvdProps_no_variance_explained:
  "\<not> (\<exists>eigenvector propVar.
      SvdProps scenario_other [IntVal 3, IntVal 1] = Returns [eigenvector, propVar])"
  by (simp add: SvdProps_def scenario_other_def sugar_less_or_equal_def sugar_greater_def
      any_def is_true_def)

text \<open>
  Claim C7 (a single non-constant column gives variance explained 1 and that column,
  normalised). Column 1 of the 4 by 3 matrix is not constant, and the call on \<open>[1]\<close>
  ends at the closing brace.
\<close>

theorem SvdProps_single_column:
  "\<not> constant_column (columns scenario ! 0) \<and> SvdProps scenario [IntVal 1] = No_return"
  by (simp add: SvdProps_def scenario_def sugar_less_or_equal_def sugar_greater_def
      any_def is_true_def constant_column_def)

section \<open>Degenerate subsets\<close>


section \<open>The reported error\<close>

text \<open>
  Claim C9 as stated (the error identifies the invalid index) does not hold: the calls
  on \<open>[4]\<close> and on \<open>[0]\<close> against the 3-column matrix fail with one and the same
  exception value, though neither index occurs in the other call.
\<close>

theorem SvdProps_error_hides_index:
  "SvdProps scenario [IntVal 4] = Throws (out_of_range oor_message) \<and>
   SvdProps scenario [IntVal 0] = Throws (out_of_range oor_message) \<and>
   IntVal 4 \<notin> set [IntVal 0] \<and> IntVal 0 \<notin> set [IntVal 4]"
  by (simp add: SvdProps_def scenario_def sugar_less_or_equal_def sugar_greater_def
      any_def is_true_def)

text \<open>
  Claim C9, amended. Every input that fails the range check, whichever of its indices
  is at most 0 or above the column count, gets \<open>std::out_of_range\<close> with the one fixed
  message: any two such calls fail with the same exception value. The error names the
  violated precondition, not the index.
\<close>

theorem SvdProps_error_fixed:
  assumes "IntVal v \<in> set subsetIndices" and "v \<le> 0 \<or> ncol pDat < v"
    and "IntVal v' \<in> set subsetIndices'" and "v' \<le> 0 \<or> ncol pDat' < v'"
  shows "SvdProps pDat subsetIndices = Throws (out_of_range oor_message) \<and>
         SvdProps pDat' subsetIndices' = SvdProps pDat subsetIndices"
proof -
  from assms(1,2)
  have "\<exists>w. IntVal w \<in> set subsetIndices \<and> (w \<le> 0 \<or> ncol pDat < w)"
    by (intro exI [of _ v]) simp
  then have first: "SvdProps pDat subsetIndices = Throws (out_of_range oor_message)"
    by (simp add: SvdProps_cases)
  from assms(3,4)
  have "\<exists>w. IntVal w \<in> set subsetIndices' \<and> (w \<le> 0 \<or> ncol pDat' < w)"
    by (intro exI [of _ v']) simp
  then have "SvdProps pDat' subsetIndices' = Throws (out_of_range oor_message)"
    by (simp add: SvdProps_cases)
  with first show ?thesis by simp
qed

text \<open>
  The index 4 of \<open>[4]\<close> against the 3-column matrix and the index 0 of \<open>[0, 2]\<close> against
  the other matrix.
\<close>

theorem SvdProps_error_fixed_witness:
  "IntVal 4 \<in> set [IntVal 4] \<and> ncol scenario < 4 \<and>
   IntVal 0 \<in> set [IntVal 0, IntVal 2] \<and> (0::int) \<le> 0 \<and>
   SvdProps scenario [IntVal 4] = Throws (out_of_range oor_message) \<and>
   SvdProps scenario_other [IntVal 0, IntVal 2] = SvdProps scenario [IntVal 4]"
proof -
  have m1: "IntVal 4 \<in> set [IntVal 4]" by simp
  have b1: "4 \<le> (0::int) \<or> ncol scenario < 4" by (simp add: scenario_def)
  have m2: "IntVal 0 \<in> set [IntVal 0, IntVal 2]" by simp
  have b2: "0 \<le> (0::int) \<or> ncol scenario_other < 0" by simp
  have "ncol scenario < 4" by (simp add: scenario_def)
  with SvdProps_error_fixed [OF m1 b1 m2 b2] m1 m2 show ?thesis by simp
qed

end
